theory Spec2Isabelle
  imports Main "HOL-Library.Multiset"
begin

section \<open>JavaScript values\<close>

text \<open>
  The documents that \<^verbatim>\<open>tasks/localeapp.js\<close> loads from YAML are plain JavaScript data.
  An object is the list of its own enumerable properties in \<^verbatim>\<open>for ... in\<close> order; an
  array is the list of its elements. Numbers are the integers that a double holds
  exactly, which print in decimal (translations are strings, \<^verbatim>\<open>polled_at\<close> and
  \<^verbatim>\<open>updated_at\<close> are epoch seconds); a string is the list of its bytes in UTF-8. Inherited
  properties (\<^verbatim>\<open>constructor\<close>, \<^verbatim>\<open>toString\<close>, ...) are not part of a value, with one
  exception that the code calls itself: \<^verbatim>\<open>hasOwnProperty\<close>, see \<open>iterate\<close>.
\<close>

datatype jsval =
    JUndefined
  | JNull
  | JBool bool
  | JNum int
  | JStr string
  | JArr "jsval list"
  | JObj "(string \<times> jsval) list"

datatype js_error =
    Fatal string        \<comment> \<open>\<^verbatim>\<open>grunt.fail.fatal(msg)\<close>: the run stops\<close>
  | TypeError string    \<comment> \<open>thrown by the language\<close>
  | IOError string      \<comment> \<open>thrown by a synchronous file operation\<close>
  | ParseError string   \<comment> \<open>thrown by a YAML parser\<close>

fun typeof :: "jsval \<Rightarrow> string" where
  "typeof JUndefined = ''undefined''"
| "typeof JNull = ''object''"
| "typeof (JBool b) = ''boolean''"
| "typeof (JNum n) = ''number''"
| "typeof (JStr s) = ''string''"
| "typeof (JArr vs) = ''object''"
| "typeof (JObj kvs) = ''object''"

subsection \<open>Numbers as decimal strings\<close>

definition digit_char :: "nat \<Rightarrow> char" where
  "digit_char d = char_of (48 + d)"

function nat_to_string :: "nat \<Rightarrow> string" where
  "nat_to_string n =
     (if n < 10 then [digit_char n] else nat_to_string (n div 10) @ [digit_char (n mod 10)])"
  by pat_completeness auto
termination
  by (relation "measure id") auto

declare nat_to_string.simps [simp del]

definition int_to_string :: "int \<Rightarrow> string" where
  "int_to_string i = (if i < 0 then CHR ''-'' # nat_to_string (nat (- i)) else nat_to_string (nat i))"

section \<open>Entry counter\<close>

text \<open>
  \<^verbatim>\<open>_countEntries\<close> (lines 126-142). The closure \<^verbatim>\<open>iterate(obj, stack)\<close> pushes one path
  string onto \<^verbatim>\<open>properties\<close> for every property whose value has a \<^verbatim>\<open>typeof\<close> other than
  \<^verbatim>\<open>"object"\<close>, and calls itself on the others. The array \<^verbatim>\<open>properties\<close> is threaded
  through as an argument and returned.

  \<^verbatim>\<open>for (var property in obj)\<close> runs over the keys of an object, over the indices of an
  array and of a string, and over nothing for any other value. The guard
  \<^verbatim>\<open>obj.hasOwnProperty(property)\<close> calls whatever \<^verbatim>\<open>obj.hasOwnProperty\<close> is: when the
  object has an own key of that name, its value is data, not a function, and the call
  throws.
\<close>

definition shadows_hasOwnProperty :: "(string \<times> jsval) list \<Rightarrow> bool" where
  "shadows_hasOwnProperty kvs = (''hasOwnProperty'' \<in> set (map fst kvs))"

definition not_a_function :: js_error where
  "not_a_function = TypeError ''obj.hasOwnProperty is not a function''"

fun iterate :: "jsval \<Rightarrow> string \<Rightarrow> string list \<Rightarrow> js_error + string list"
and iterate_keys :: "bool \<Rightarrow> (string \<times> jsval) list \<Rightarrow> string \<Rightarrow> string list \<Rightarrow> js_error + string list"
and iterate_elems :: "nat \<Rightarrow> jsval list \<Rightarrow> string \<Rightarrow> string list \<Rightarrow> js_error + string list"
where
  "iterate (JObj kvs) stack properties =
     iterate_keys (shadows_hasOwnProperty kvs) kvs stack properties"
| "iterate (JArr vs) stack properties = iterate_elems 0 vs stack properties"
| "iterate (JStr s) stack properties =
     Inr (properties @ map (\<lambda>i. stack @ ''.'' @ nat_to_string i) [0..<length s])"
| "iterate JUndefined stack properties = Inr properties"
| "iterate JNull stack properties = Inr properties"
| "iterate (JBool b) stack properties = Inr properties"
| "iterate (JNum n) stack properties = Inr properties"
| "iterate_keys shadowed [] stack properties = Inr properties"
| "iterate_keys shadowed ((property, v) # rest) stack properties =
     (if shadowed then Inl not_a_function
      else if typeof v = ''object'' then
        (case iterate v (stack @ ''.'' @ property) properties of
           Inl e \<Rightarrow> Inl e
         | Inr properties' \<Rightarrow> iterate_keys shadowed rest stack properties')
      else iterate_keys shadowed rest stack (properties @ [stack @ ''.'' @ property]))"
| "iterate_elems i [] stack properties = Inr properties"
| "iterate_elems i (v # rest) stack properties =
     (if typeof v = ''object'' then
        (case iterate v (stack @ ''.'' @ nat_to_string i) properties of
           Inl e \<Rightarrow> Inl e
         | Inr properties' \<Rightarrow> iterate_elems (Suc i) rest stack properties')
      else iterate_elems (Suc i) rest stack (properties @ [stack @ ''.'' @ nat_to_string i]))"

text \<open>
  \<^verbatim>\<open>_countEntries\<close> on the document that \<^verbatim>\<open>grunt.file.readYAML\<close> returned:
  \<^verbatim>\<open>iterate(doc, ''); return properties.length\<close>.
\<close>

definition countEntries :: "jsval \<Rightarrow> js_error + nat" where
  "countEntries doc =
     (case iterate doc [] [] of Inl e \<Rightarrow> Inl e | Inr properties \<Rightarrow> Inr (length properties))"

section \<open>Strings\<close>

text \<open>
  \<^verbatim>\<open>s.split(c)\<close> for a one-character separator: the pieces between the separators, the
  empty ones too, and one piece (the empty string) for the empty string.
\<close>

fun split_on :: "char \<Rightarrow> string \<Rightarrow> string list" where
  "split_on c [] = [[]]"
| "split_on c (x # xs) =
     (if x = c then [] # split_on c xs
      else (case split_on c xs of [] \<Rightarrow> [[x]] | w # ws \<Rightarrow> (x # w) # ws))"

text \<open>\<^verbatim>\<open>s.split(sep)[0]\<close>: what stands before the first occurrence of \<open>sep\<close>.\<close>

fun until_sep :: "string \<Rightarrow> string \<Rightarrow> string" where
  "until_sep sep [] = []"
| "until_sep sep (c # cs) =
     (if take (length sep) (c # cs) = sep then [] else c # until_sep sep cs)"

text \<open>
  \<^verbatim>\<open>s.replace(a, b)\<close> with a string pattern of one character: only the first occurrence
  is replaced.
\<close>

fun replace_first :: "char \<Rightarrow> char \<Rightarrow> string \<Rightarrow> string" where
  "replace_first a b [] = []"
| "replace_first a b (c # cs) = (if c = a then b # cs else c # replace_first a b cs)"

fun join :: "string \<Rightarrow> string list \<Rightarrow> string" where
  "join sep [] = []"
| "join sep [x] = x"
| "join sep (x # y # ys) = x @ sep @ join sep (y # ys)"

text \<open>An array element that may be missing, and its text in a string concatenation.\<close>

definition element :: "'a list \<Rightarrow> nat \<Rightarrow> 'a option" where
  "element xs i = (if i < length xs then Some (xs ! i) else None)"

definition display :: "string option \<Rightarrow> string" where
  "display s = (case s of None \<Rightarrow> ''undefined'' | Some t \<Rightarrow> t)"

text \<open>
  The check mark that starts the task's log lines, as UTF-8, with the space after it.
  The colour codes that \<^verbatim>\<open>chalk\<close> wraps around parts of a line are left out of the text.
\<close>

definition tick :: string where
  "tick = [CHR 0xE2, CHR 0x9C, CHR 0x94, CHR '' '']"

definition newline :: string where
  "newline = [CHR 0x0A]"

section \<open>JSON.stringify(value, null, 2)\<close>

text \<open>
  The serialisation of ECMAScript 5, section 15.12.3, with the gap of two spaces:
  \<open>Quote\<close> for strings, \<open>Str\<close> for a value at the current indent (\<open>None\<close> is
  \<^verbatim>\<open>undefined\<close>), a property whose value is \<^verbatim>\<open>undefined\<close> left out of an object, and
  \<^verbatim>\<open>null\<close> in its place in an array.
\<close>

definition hex_digit :: "nat \<Rightarrow> char" where
  "hex_digit d = (if d < 10 then char_of (48 + d) else char_of (87 + d))"

definition quote_char :: "char \<Rightarrow> string" where
  "quote_char c =
     (if c = CHR 0x22 then [CHR 0x5C, CHR 0x22]
      else if c = CHR 0x5C then [CHR 0x5C, CHR 0x5C]
      else if c = CHR 0x08 then [CHR 0x5C, CHR ''b'']
      else if c = CHR 0x0C then [CHR 0x5C, CHR ''f'']
      else if c = CHR 0x0A then [CHR 0x5C, CHR ''n'']
      else if c = CHR 0x0D then [CHR 0x5C, CHR ''r'']
      else if c = CHR 0x09 then [CHR 0x5C, CHR ''t'']
      else if of_char c < (32 :: nat) then
        [CHR 0x5C, CHR ''u'', CHR ''0'', CHR ''0'',
         hex_digit (of_char c div 16), hex_digit (of_char c mod 16)]
      else [c])"

definition Quote :: "string \<Rightarrow> string" where
  "Quote s = [CHR 0x22] @ concat (map quote_char s) @ [CHR 0x22]"

definition gap :: string where
  "gap = ''  ''"

definition wrap :: "string \<Rightarrow> string \<Rightarrow> string \<Rightarrow> string \<Rightarrow> string list \<Rightarrow> string" where
  "wrap opening closing stepback indent partial =
     (if partial = [] then opening @ closing
      else opening @ newline @ indent @ join ('','' @ newline @ indent) partial
           @ newline @ stepback @ closing)"

fun Str :: "string \<Rightarrow> jsval \<Rightarrow> string option"
and JO_partial :: "string \<Rightarrow> (string \<times> jsval) list \<Rightarrow> string list"
and JA_partial :: "string \<Rightarrow> jsval list \<Rightarrow> string list"
where
  "Str indent JUndefined = None"
| "Str indent JNull = Some ''null''"
| "Str indent (JBool b) = Some (if b then ''true'' else ''false'')"
| "Str indent (JNum n) = Some (int_to_string n)"
| "Str indent (JStr s) = Some (Quote s)"
| "Str indent (JObj kvs) =
     Some (wrap ''{'' ''}'' indent (indent @ gap) (JO_partial (indent @ gap) kvs))"
| "Str indent (JArr vs) =
     Some (wrap ''['' '']'' indent (indent @ gap) (JA_partial (indent @ gap) vs))"
| "JO_partial indent [] = []"
| "JO_partial indent ((k, v) # rest) =
     (case Str indent v of
        None \<Rightarrow> JO_partial indent rest
      | Some strP \<Rightarrow> (Quote k @ '':'' @ '' '' @ strP) # JO_partial indent rest)"
| "JA_partial indent [] = []"
| "JA_partial indent (v # rest) =
     (case Str indent v of None \<Rightarrow> ''null'' | Some strP \<Rightarrow> strP) # JA_partial indent rest"

definition JSON_stringify :: "jsval \<Rightarrow> string option" where
  "JSON_stringify v = Str [] v"

section \<open>Property access\<close>

text \<open>
  \<^verbatim>\<open>v[k]\<close>: an own property of an object, an element or the length of an array or of a
  string, \<^verbatim>\<open>undefined\<close> where there is none, and a \<^verbatim>\<open>TypeError\<close> on \<^verbatim>\<open>null\<close> and
  \<^verbatim>\<open>undefined\<close>.
\<close>

definition index_of_key :: "nat \<Rightarrow> string \<Rightarrow> nat option" where
  "index_of_key n k = find (\<lambda>i. nat_to_string i = k) [0..<n]"

fun get_prop :: "jsval \<Rightarrow> string \<Rightarrow> js_error + jsval" where
  "get_prop JUndefined k = Inl (TypeError (''Cannot read property '' @ k @ '' of undefined''))"
| "get_prop JNull k = Inl (TypeError (''Cannot read property '' @ k @ '' of null''))"
| "get_prop (JObj kvs) k = Inr (case map_of kvs k of None \<Rightarrow> JUndefined | Some v \<Rightarrow> v)"
| "get_prop (JArr vs) k =
     Inr (if k = ''length'' then JNum (int (length vs))
          else (case index_of_key (length vs) k of None \<Rightarrow> JUndefined | Some i \<Rightarrow> vs ! i))"
| "get_prop (JStr s) k =
     Inr (if k = ''length'' then JNum (int (length s))
          else (case index_of_key (length s) k of None \<Rightarrow> JUndefined | Some i \<Rightarrow> JStr [s ! i]))"
| "get_prop (JBool b) k = Inr JUndefined"
| "get_prop (JNum n) k = Inr JUndefined"

text \<open>
  \<^verbatim>\<open>v[k] = x\<close> in strict mode (the file starts with \<^verbatim>\<open>'use strict'\<close>): a new property
  goes last, an existing one keeps its place; a \<^verbatim>\<open>TypeError\<close> on \<^verbatim>\<open>null\<close>,
  \<^verbatim>\<open>undefined\<close> and on a primitive value. A named property put on an array is not
  kept in the value: the array's elements are all that is read from it afterwards.
\<close>

fun put_key :: "string \<Rightarrow> jsval \<Rightarrow> (string \<times> jsval) list \<Rightarrow> (string \<times> jsval) list" where
  "put_key k x [] = [(k, x)]"
| "put_key k x ((k', v) # rest) = (if k' = k then (k, x) # rest else (k', v) # put_key k x rest)"

fun set_prop :: "jsval \<Rightarrow> string \<Rightarrow> jsval \<Rightarrow> js_error + jsval" where
  "set_prop (JObj kvs) k x = Inr (JObj (put_key k x kvs))"
| "set_prop (JArr vs) k x = Inr (JArr vs)"
| "set_prop v k x = Inl (TypeError (''Cannot set property '' @ k @ '' of '' @ typeof v))"

section \<open>The file system\<close>

text \<open>
  A path is the list of its components; the working directory is the empty path. A
  path string is cut at \<^verbatim>\<open>/\<close> and empty components are dropped, so a trailing or a
  doubled separator changes nothing; \<^verbatim>\<open>.\<close> and \<^verbatim>\<open>..\<close> are not interpreted and every
  path is taken relative to the working directory. The file system is a list of
  entries, in the order a directory listing returns them, and holds one entry per path.
  An entry counts only when every directory above it is there.
\<close>

type_synonym path = "string list"

datatype node = File string | Dir

type_synonym filesys = "(path \<times> node) list"

definition parse_path :: "string \<Rightarrow> path" where
  "parse_path s = filter (\<lambda>c. c \<noteq> []) (split_on CHR ''/'' s)"

definition stat :: "filesys \<Rightarrow> path \<Rightarrow> node option" where
  "stat fs p =
     (if p = [] then Some Dir
      else if list_all (\<lambda>n. map_of fs (take n p) = Some Dir) [1..<length p] then map_of fs p
      else None)"

text \<open>The node a path string names; the empty string names nothing.\<close>

definition lookup :: "filesys \<Rightarrow> string \<Rightarrow> node option" where
  "lookup fs s = (if s = [] then None else stat fs (parse_path s))"

definition isDir :: "filesys \<Rightarrow> string \<Rightarrow> bool" where
  "isDir fs s = (lookup fs s = Some Dir)"

definition under :: "path \<Rightarrow> path \<Rightarrow> bool" where
  "under p q = (take (length p) q = p)"

definition remove_tree :: "path \<Rightarrow> filesys \<Rightarrow> filesys" where
  "remove_tree p fs = filter (\<lambda>e. \<not> under p (fst e)) fs"

fun put :: "path \<Rightarrow> node \<Rightarrow> filesys \<Rightarrow> filesys" where
  "put p n [] = [(p, n)]"
| "put p n ((q, m) # rest) = (if q = p then (p, n) # rest else (q, m) # put p n rest)"

definition children :: "filesys \<Rightarrow> path \<Rightarrow> string list" where
  "children fs d = map (\<lambda>e. last (fst e)) (filter (\<lambda>e. fst e \<noteq> [] \<and> butlast (fst e) = d) fs)"

text \<open>
  \<^verbatim>\<open>grunt.file.delete(path)\<close>: removes the file or the whole directory; it refuses the
  working directory itself, with a warning that stops the task.
\<close>

definition file_delete :: "filesys \<Rightarrow> string \<Rightarrow> js_error + filesys" where
  "file_delete fs s =
     (if parse_path s = [] then Inl (Fatal ''Cannot delete the current working directory.'')
      else Inr (remove_tree (parse_path s) fs))"

text \<open>\<^verbatim>\<open>fs.readdirSync(path)\<close>: the names in a directory; throws when it is not one.\<close>

definition readdirSync :: "filesys \<Rightarrow> string \<Rightarrow> js_error + string list" where
  "readdirSync fs s =
     (if lookup fs s = Some Dir then Inr (children fs (parse_path s))
      else Inl (IOError (''ENOTDIR or ENOENT, readdir '' @ s)))"

text \<open>
  \<^verbatim>\<open>fs.mkdir(path)\<close> makes one directory, not the ones above it. The call is the
  asynchronous one with no callback: in the model it takes effect at the call, and a
  failure (the parent is missing, the path exists) leaves the file system as it is and
  is reported to nobody within the task.
\<close>

definition mkdir :: "filesys \<Rightarrow> string \<Rightarrow> filesys" where
  "mkdir fs s =
     (let p = parse_path s
      in if p \<noteq> [] \<and> stat fs (butlast p) = Some Dir \<and> stat fs p = None then put p Dir fs else fs)"

text \<open>\<^verbatim>\<open>fs.openSync(path, 'w')\<close>: creates the file or empties it; throws when it cannot.\<close>

definition openSync_w :: "filesys \<Rightarrow> string \<Rightarrow> js_error + filesys" where
  "openSync_w fs s =
     (let p = parse_path s
      in if s \<noteq> [] \<and> p \<noteq> [] \<and> stat fs (butlast p) = Some Dir \<and> stat fs p \<noteq> Some Dir
         then Inr (put p (File []) fs)
         else Inl (IOError (''ENOENT or EISDIR, open '' @ s)))"

text \<open>Reading a file as text; throws when the path is not a file.\<close>

definition read_file :: "filesys \<Rightarrow> string \<Rightarrow> js_error + string" where
  "read_file fs s =
     (case lookup fs s of
        Some (File c) \<Rightarrow> Inr c
      | _ \<Rightarrow> Inl (IOError (''Unable to read '' @ s)))"

text \<open>
  \<^verbatim>\<open>grunt.file.write(path, contents)\<close>: makes the directories above the file
  (\<^verbatim>\<open>mkdir -p\<close>), then writes it; throws when a file stands where a directory is needed
  or a directory where the file goes.
\<close>

fun is_file :: "node option \<Rightarrow> bool" where
  "is_file (Some (File c)) = True"
| "is_file (Some Dir) = False"
| "is_file None = False"

fun mkdir_p :: "filesys \<Rightarrow> path list \<Rightarrow> filesys" where
  "mkdir_p fs [] = fs"
| "mkdir_p fs (d # ds) = mkdir_p (if map_of fs d = None then put d Dir fs else fs) ds"

definition ancestors :: "path \<Rightarrow> path list" where
  "ancestors p = map (\<lambda>n. take n p) [1..<length p]"

definition file_write :: "filesys \<Rightarrow> string \<Rightarrow> string \<Rightarrow> js_error + filesys" where
  "file_write fs s contents =
     (let p = parse_path s
      in if s = [] \<or> p = [] \<or> list_ex (\<lambda>d. is_file (map_of fs d)) (ancestors p)
            \<or> map_of fs p = Some Dir
         then Inl (IOError (''Unable to write '' @ s))
         else Inr (put p (File contents) (mkdir_p fs (ancestors p))))"

text \<open>\<^verbatim>\<open>grunt.file.copy(src, dest)\<close> reads the source and writes the destination.\<close>

definition file_copy :: "filesys \<Rightarrow> string \<Rightarrow> string \<Rightarrow> js_error + filesys" where
  "file_copy fs src dst =
     (case read_file fs src of Inl e \<Rightarrow> Inl e | Inr contents \<Rightarrow> file_write fs dst contents)"

text \<open>
  \<^verbatim>\<open>fs.rename(old, new)\<close>, as \<^verbatim>\<open>rename(2)\<close>: a file replaces a file, a directory moves
  with all it holds and replaces only an empty directory. It is the asynchronous call:
  in the model it takes effect at the call.
\<close>

definition move_tree :: "path \<Rightarrow> path \<Rightarrow> filesys \<Rightarrow> filesys" where
  "move_tree old new fs =
     map (\<lambda>e. if under old (fst e) then (new @ drop (length old) (fst e), snd e) else e)
       (filter (\<lambda>e. fst e \<noteq> new) fs)"

definition rename :: "filesys \<Rightarrow> string \<Rightarrow> string \<Rightarrow> js_error + filesys" where
  "rename fs old new =
     (let p = parse_path old; q = parse_path new
      in if old = [] \<or> new = [] \<or> p = [] \<or> q = [] then Inl (IOError ''EINVAL, rename'')
         else (case stat fs p of
            None \<Rightarrow> Inl (IOError (''ENOENT, rename '' @ old))
          | Some n \<Rightarrow>
              if stat fs (butlast q) \<noteq> Some Dir then Inl (IOError (''ENOENT, rename '' @ old))
              else if p = q then Inr fs
              else (case n of
                 File c \<Rightarrow>
                   if stat fs q = Some Dir then Inl (IOError (''EISDIR, rename '' @ old))
                   else Inr (put q (File c) (remove_tree q (remove_tree p fs)))
               | Dir \<Rightarrow>
                   if under p q then Inl (IOError (''EINVAL, rename '' @ old))
                   else if stat fs q \<noteq> None \<and> (stat fs q \<noteq> Some Dir \<or> children fs q \<noteq> [])
                   then Inl (IOError (''ENOTDIR or ENOTEMPTY, rename '' @ old))
                   else Inr (move_tree p q fs))))"

section \<open>The task and what it runs in\<close>

text \<open>
  What the task does not compute itself is a parameter: the shell that runs the
  \<^verbatim>\<open>localeapp\<close> commands (it returns the captured standard output and the file system
  the command leaves), the two YAML parsers (\<^verbatim>\<open>yamljs\<close> behind \<^verbatim>\<open>yaml.load\<close>,
  \<^verbatim>\<open>js-yaml\<close> behind \<^verbatim>\<open>grunt.file.readYAML\<close>), and
  \<^verbatim>\<open>new Date(x * 1000).toString()\<close>, which depends on the time zone.
\<close>

record env =
  shell :: "string \<Rightarrow> filesys \<Rightarrow> string \<times> filesys"
  yamljs :: "string \<Rightarrow> js_error + jsval"
  js_yaml :: "string \<Rightarrow> js_error + jsval"
  date_toString :: "jsval \<Rightarrow> string"

text \<open>What the task can be seen to do, in order.\<close>

datatype event =
    Exec string       \<comment> \<open>\<^verbatim>\<open>command(cmd)\<close>: a subprocess\<close>
  | Log string        \<comment> \<open>\<^verbatim>\<open>grunt.log.writeln(msg)\<close>\<close>
  | Console string    \<comment> \<open>\<^verbatim>\<open>console.log(msg)\<close>\<close>

text \<open>
  The state: the file system, the variable \<^verbatim>\<open>version\<close> of the module (\<open>None\<close> is
  \<^verbatim>\<open>undefined\<close>, its value before the first assignment), and the events so far. The
  \<^verbatim>\<open>grunt.verbose\<close> lines, shown only on request, are not recorded.
\<close>

record world =
  fs :: filesys
  version :: "string option"
  trace :: "event list"

text \<open>
  A step takes the state and returns its result, or the error that stops the task, and
  the state it leaves.
\<close>

type_synonym 'a step = "world \<Rightarrow> (js_error + 'a) \<times> world"

definition return :: "'a \<Rightarrow> 'a step" where
  "return x w = (Inr x, w)"

definition throw :: "js_error \<Rightarrow> 'a step" where
  "throw e w = (Inl e, w)"

definition bind :: "'a step \<Rightarrow> ('a \<Rightarrow> 'b step) \<Rightarrow> 'b step" where
  "bind m f w = (case m w of (Inl e, w') \<Rightarrow> (Inl e, w') | (Inr x, w') \<Rightarrow> f x w')"

definition fail_fatal :: "string \<Rightarrow> 'a step" where
  "fail_fatal msg = throw (Fatal msg)"

definition log_writeln :: "string \<Rightarrow> unit step" where
  "log_writeln msg w = (Inr (), w\<lparr>trace := trace w @ [Log msg]\<rparr>)"

definition console_log :: "string \<Rightarrow> unit step" where
  "console_log msg w = (Inr (), w\<lparr>trace := trace w @ [Console msg]\<rparr>)"

definition command :: "env \<Rightarrow> string \<Rightarrow> string step" where
  "command e cmd w =
     (case shell e cmd (fs w) of
        (stdout, fs') \<Rightarrow> (Inr stdout, w\<lparr>fs := fs', trace := trace w @ [Exec cmd]\<rparr>))"

text \<open>A file operation that can throw, and one that cannot, as steps.\<close>

definition fs_try :: "(filesys \<Rightarrow> js_error + filesys) \<Rightarrow> unit step" where
  "fs_try f w = (case f (fs w) of Inl e \<Rightarrow> (Inl e, w) | Inr fs' \<Rightarrow> (Inr (), w\<lparr>fs := fs'\<rparr>))"

definition fs_do :: "(filesys \<Rightarrow> filesys) \<Rightarrow> unit step" where
  "fs_do f w = (Inr (), w\<lparr>fs := f (fs w)\<rparr>)"

definition fs_read :: "(filesys \<Rightarrow> js_error + 'a) \<Rightarrow> 'a step" where
  "fs_read f w = (case f (fs w) of Inl e \<Rightarrow> (Inl e, w) | Inr x \<Rightarrow> (Inr x, w))"

definition lift :: "js_error + 'a \<Rightarrow> 'a step" where
  "lift r w = (case r of Inl e \<Rightarrow> (Inl e, w) | Inr x \<Rightarrow> (Inr x, w))"

text \<open>\<^verbatim>\<open>yaml.load(path)\<close> and \<^verbatim>\<open>grunt.file.readYAML(path)\<close>: read the file, parse it.\<close>

definition yaml_load :: "env \<Rightarrow> string \<Rightarrow> jsval step" where
  "yaml_load e s = bind (fs_read (\<lambda>fs. read_file fs s)) (\<lambda>text. lift (yamljs e text))"

definition readYAML :: "env \<Rightarrow> string \<Rightarrow> jsval step" where
  "readYAML e s = bind (fs_read (\<lambda>fs. read_file fs s)) (\<lambda>text. lift (js_yaml e text))"

subsection \<open>\<^verbatim>\<open>_checkLocaleappGem\<close> (lines 28-41)\<close>

definition checkLocaleappGem :: "env \<Rightarrow> unit step" where
  "checkLocaleappGem e =
     bind (command e ''localeapp -v'') (\<lambda>stdout w.
       (let w' = w\<lparr>version := Some (butlast stdout)\<rparr>
        in case version w' of
             None \<Rightarrow> fail_fatal ''No localeapp gem installed'' w'
           | Some v \<Rightarrow>
               log_writeln (tick @ ''localeapp gem installed ('' @ ''v''
                            @ display (element (split_on CHR '' '' v) 2) @ '')'') w'))"

subsection \<open>\<^verbatim>\<open>_setupProject\<close> (lines 51-64)\<close>

definition setupProject :: "env \<Rightarrow> string \<Rightarrow> unit step" where
  "setupProject e key =
     bind (command e (''localeapp install '' @ key)) (\<lambda>log.
       if take 5 log = ''error'' then fail_fatal ''Your API key seems to be invalid''
       else log_writeln (tick @ ''Key '' @ key @ '' valid''))"

subsection \<open>\<^verbatim>\<open>_getLocales\<close> (lines 75-115)\<close>

text \<open>The result of the fetch: \<^verbatim>\<open>{polledAt, updatedAt, files}\<close>.\<close>

record batch =
  polledAt :: jsval
  updatedAt :: jsval
  files :: "string list"

definition countEntries_file :: "env \<Rightarrow> string \<Rightarrow> nat step" where
  "countEntries_file e locale =
     bind (readYAML e (''config/locales/'' @ locale)) (\<lambda>doc. lift (countEntries doc))"

text \<open>
  The loop of lines 98-104 over \<open>files\<close>, from index \<open>i\<close> on; \<open>n\<close> is
  \<^verbatim>\<open>files.length\<close> and \<open>locales\<close> the string built so far.
\<close>

fun locales_loop :: "env \<Rightarrow> nat \<Rightarrow> nat \<Rightarrow> string list \<Rightarrow> string \<Rightarrow> string step" where
  "locales_loop e n i [] locales = return locales"
| "locales_loop e n i (f # rest) locales =
     bind (countEntries_file e f) (\<lambda>count.
       locales_loop e n (Suc i) rest
         (locales @ f @ '' ['' @ nat_to_string count @ '']''
          @ (if int i < int n - 1 then '', '' else [])))"

definition getLocales :: "env \<Rightarrow> batch step" where
  "getLocales e =
     bind (fs_do (\<lambda>fs. mkdir fs ''config/locales'')) (\<lambda>_.
     bind (fs_do (\<lambda>fs. mkdir fs ''log'')) (\<lambda>_.
     bind (fs_try (\<lambda>fs. openSync_w fs ''log/localeapp.yml'')) (\<lambda>_.
     bind (command e ''localeapp pull'') (\<lambda>log.
     bind (fs_read (\<lambda>fs. readdirSync fs ''config/locales'')) (\<lambda>files.
     bind (locales_loop e (length files) 0 files []) (\<lambda>locales.
     bind (log_writeln (tick @ nat_to_string (length files)
             @ '' locale(s) pulled from localeapp.com : ('' @ locales @ '')'')) (\<lambda>_.
     bind (yaml_load e ''log/localeapp.yml'') (\<lambda>log.
     bind (lift (get_prop log ''polled_at'')) (\<lambda>polled_at.
     bind (lift (get_prop log ''updated_at'')) (\<lambda>updated_at.
     return \<lparr>polledAt = polled_at, updatedAt = updated_at, files = files\<rparr>))))))))))"

subsection \<open>\<^verbatim>\<open>_formatJSON\<close> (lines 155-184)\<close>

text \<open>The expressions of lines 160-170, one definition each.\<close>

definition locale_of :: "string \<Rightarrow> string" where
  "locale_of name = until_sep ''.yml'' name"

definition working_file :: "string \<Rightarrow> string" where
  "working_file locale = ''config/locales/'' @ locale"

definition underscored :: "string \<Rightarrow> string" where
  "underscored s = replace_first CHR ''-'' CHR ''_'' s"

definition json_content :: "bool \<Rightarrow> string \<Rightarrow> jsval \<Rightarrow> string option" where
  "json_content toJS locale json =
     (if toJS
      then Some (''var translate_'' @ underscored locale @ '' = ''
                 @ display (JSON_stringify json) @ '';'')
      else JSON_stringify json)"

definition json_filename :: "bool \<Rightarrow> string \<Rightarrow> string" where
  "json_filename toJS file = underscored file @ (if toJS then ''.js'' else ''.json'')"

text \<open>
  Lines 178-181: \<^verbatim>\<open>json._meta = {}\<close> and the three fields put into it. The value
  returned is \<^verbatim>\<open>json\<close> after these assignments.
\<close>

definition meta :: "env \<Rightarrow> batch \<Rightarrow> string option \<Rightarrow> jsval" where
  "meta e b v =
     JObj [(''polledAt'', JStr (date_toString e (polledAt b))),
           (''updatedAt'', JStr (date_toString e (updatedAt b))),
           (''gem'', (case v of None \<Rightarrow> JUndefined | Some s \<Rightarrow> JStr s))]"

definition add_meta :: "env \<Rightarrow> batch \<Rightarrow> jsval \<Rightarrow> jsval step" where
  "add_meta e b json w = lift (set_prop json ''_meta'' (meta e b (version w))) w"

text \<open>
  The rename of lines 172-174 with its callback, which prints an error and goes on.
\<close>

definition rename_logged :: "string \<Rightarrow> string \<Rightarrow> unit step" where
  "rename_logged old new w =
     (case rename (fs w) old new of
        Inl err \<Rightarrow> console_log (''ERROR: '' @ (case err of IOError m \<Rightarrow> m | _ \<Rightarrow> [])) w
      | Inr fs' \<Rightarrow> (Inr (), w\<lparr>fs := fs'\<rparr>))"

text \<open>One turn of the loop, in the order of the lines.\<close>

definition formatJSON_file :: "env \<Rightarrow> batch \<Rightarrow> bool \<Rightarrow> string \<Rightarrow> unit step" where
  "formatJSON_file e b toJS name =
     (let locale = locale_of name;
          file = working_file locale
      in bind (yaml_load e (file @ ''.yml'')) (\<lambda>doc.
         bind (lift (get_prop doc locale)) (\<lambda>json.
           (let content = json_content toJS locale json;
                filename = json_filename toJS file
            in bind (rename_logged (file @ ''.yml'') filename) (\<lambda>_.
               bind (add_meta e b json) (\<lambda>json'.
               fs_try (\<lambda>fs. file_write fs filename (display content))))))))"

fun formatJSON_loop :: "env \<Rightarrow> batch \<Rightarrow> bool \<Rightarrow> string list \<Rightarrow> unit step" where
  "formatJSON_loop e b toJS [] = return ()"
| "formatJSON_loop e b toJS (name # rest) =
     bind (formatJSON_file e b toJS name) (\<lambda>_. formatJSON_loop e b toJS rest)"

definition formatJSON :: "env \<Rightarrow> batch \<Rightarrow> bool \<Rightarrow> unit step" where
  "formatJSON e b toJS = formatJSON_loop e b toJS (files b)"

subsection \<open>\<^verbatim>\<open>_formatYML\<close> (lines 193-201)\<close>

text \<open>
  The rename has no callback: a failure changes nothing and is reported to nobody
  within the task.
\<close>

definition yml_filename :: "string \<Rightarrow> string" where
  "yml_filename file = underscored file @ ''.yml''"

definition rename_silent :: "string \<Rightarrow> string \<Rightarrow> unit step" where
  "rename_silent old new w =
     (case rename (fs w) old new of
        Inl err \<Rightarrow> (Inr (), w)
      | Inr fs' \<Rightarrow> (Inr (), w\<lparr>fs := fs'\<rparr>))"

definition formatYML_file :: "string \<Rightarrow> unit step" where
  "formatYML_file name =
     (let locale = locale_of name;
          file = working_file locale
      in rename_silent (file @ ''.yml'') (yml_filename file))"

fun formatYML_loop :: "string list \<Rightarrow> unit step" where
  "formatYML_loop [] = return ()"
| "formatYML_loop (name # rest) = bind (formatYML_file name) (\<lambda>_. formatYML_loop rest)"

definition formatYML :: "batch \<Rightarrow> unit step" where
  "formatYML b = formatYML_loop (files b)"

subsection \<open>\<^verbatim>\<open>_clean\<close> (lines 203-209)\<close>

fun clean :: "string list \<Rightarrow> unit step" where
  "clean [] = return ()"
| "clean (folder # rest) =
     bind (\<lambda>w. if isDir (fs w) folder then fs_try (\<lambda>fs. file_delete fs folder) w
                else return () w)
          (\<lambda>_. clean rest)"

subsection \<open>The task (lines 212-261)\<close>

record task_data =
  key :: string
  format :: string
  dest :: string

definition availableFormats :: "string list" where
  "availableFormats = [''yml'', ''yaml'', ''json'', ''js'']"

definition unsupported :: "string \<Rightarrow> string" where
  "unsupported fmt =
     ''There is no support for '' @ fmt @ '' yet. Please use one of the following : ''
     @ join '', '' availableFormats @ ''.''"

text \<open>
  Lines 247-257: every file of \<^verbatim>\<open>config/locales\<close> is copied to \<^verbatim>\<open>dest + name\<close>, then
  \<^verbatim>\<open>dest\<close> is listed and the line about the copies is logged.
\<close>

fun copy_loop :: "string \<Rightarrow> string list \<Rightarrow> unit step" where
  "copy_loop d [] = return ()"
| "copy_loop d (name # rest) =
     bind (fs_try (\<lambda>fs. file_copy fs (''config/locales/'' @ name) (d @ name)))
          (\<lambda>_. copy_loop d rest)"

definition copied_line :: "string \<Rightarrow> string list \<Rightarrow> string" where
  "copied_line d destFiles =
     tick @ nat_to_string (length destFiles) @ '' locale(s) copied into '' @ d
     @ ''  : ('' @ join '', '' destFiles @ '')''"

definition publish :: "string \<Rightarrow> unit step" where
  "publish d =
     bind (fs_read (\<lambda>fs. readdirSync fs ''config/locales'')) (\<lambda>locales.
     bind (copy_loop d locales) (\<lambda>_.
     bind (fs_read (\<lambda>fs. readdirSync fs d)) (\<lambda>destFiles.
     log_writeln (copied_line d destFiles))))"

text \<open>The \<^verbatim>\<open>switch\<close> of lines 227-242; \<^verbatim>\<open>yml\<close>, \<^verbatim>\<open>yaml\<close> and the default go to YAML.\<close>

definition format_files :: "env \<Rightarrow> string \<Rightarrow> batch \<Rightarrow> unit step" where
  "format_files e fmt b =
     (if fmt = ''js'' then formatJSON e b True
      else if fmt = ''json'' then formatJSON e b False
      else formatYML b)"

text \<open>The callback registered for the task \<^verbatim>\<open>localeapp\<close>, on \<^verbatim>\<open>this.data\<close>.\<close>

definition localeapp :: "env \<Rightarrow> task_data \<Rightarrow> unit step" where
  "localeapp e d =
     bind (clean [''config'', ''log'']) (\<lambda>_.
     bind (if format d \<in> set availableFormats then return ()
           else fail_fatal (unsupported (format d))) (\<lambda>_.
     bind (checkLocaleappGem e) (\<lambda>_.
     bind (setupProject e (key d)) (\<lambda>_.
     bind (getLocales e) (\<lambda>b.
     bind (format_files e (format d) b) (\<lambda>_.
     bind (publish (dest d)) (\<lambda>_.
     clean [''config'', ''log''])))))))"

section \<open>Notions the properties are stated with\<close>

subsection \<open>What the entry counter counts\<close>

text \<open>
  The number of paths \<open>iterate\<close> pushes: one for every value that is not of type
  \<^verbatim>\<open>"object"\<close>, reached through objects and through arrays; \<^verbatim>\<open>null\<close> is of type
  \<^verbatim>\<open>"object"\<close> and holds nothing.
\<close>

fun leaves :: "jsval \<Rightarrow> nat"
and leaves_keys :: "(string \<times> jsval) list \<Rightarrow> nat"
and leaves_elems :: "jsval list \<Rightarrow> nat"
where
  "leaves (JObj kvs) = leaves_keys kvs"
| "leaves (JArr vs) = leaves_elems vs"
| "leaves (JStr s) = length s"
| "leaves JUndefined = 0"
| "leaves JNull = 0"
| "leaves (JBool b) = 0"
| "leaves (JNum n) = 0"
| "leaves_keys [] = 0"
| "leaves_keys ((k, v) # rest) = (if typeof v = ''object'' then leaves v else 1) + leaves_keys rest"
| "leaves_elems [] = 0"
| "leaves_elems (v # rest) = (if typeof v = ''object'' then leaves v else 1) + leaves_elems rest"

text \<open>Whether the walk meets an object with an own key \<^verbatim>\<open>hasOwnProperty\<close>.\<close>

fun throws :: "jsval \<Rightarrow> bool"
and throws_keys :: "(string \<times> jsval) list \<Rightarrow> bool"
and throws_elems :: "jsval list \<Rightarrow> bool"
where
  "throws (JObj kvs) = (shadows_hasOwnProperty kvs \<or> throws_keys kvs)"
| "throws (JArr vs) = throws_elems vs"
| "throws (JStr s) = False"
| "throws JUndefined = False"
| "throws JNull = False"
| "throws (JBool b) = False"
| "throws (JNum n) = False"
| "throws_keys [] = False"
| "throws_keys ((k, v) # rest) = (throws v \<or> throws_keys rest)"
| "throws_elems [] = False"
| "throws_elems (v # rest) = (throws v \<or> throws_elems rest)"

definition entry_weight :: "jsval \<Rightarrow> nat" where
  "entry_weight v = (if typeof v = ''object'' then leaves v else 1)"

text \<open>
  The count as the specification words it: the number of leaves of a nested mapping,
  a leaf being a value that is not itself a nested mapping.
\<close>

fun spec_leaf_count :: "jsval \<Rightarrow> nat"
and spec_leaf_count_keys :: "(string \<times> jsval) list \<Rightarrow> nat"
where
  "spec_leaf_count (JObj kvs) = spec_leaf_count_keys kvs"
| "spec_leaf_count JUndefined = 0"
| "spec_leaf_count JNull = 0"
| "spec_leaf_count (JBool b) = 0"
| "spec_leaf_count (JNum n) = 0"
| "spec_leaf_count (JStr s) = 0"
| "spec_leaf_count (JArr vs) = 0"
| "spec_leaf_count_keys [] = 0"
| "spec_leaf_count_keys ((k, v) # rest) =
     (case v of JObj kvs \<Rightarrow> spec_leaf_count v | _ \<Rightarrow> 1) + spec_leaf_count_keys rest"

text \<open>
  A nested mapping whose leaves are strings, numbers and booleans, with no key
  \<^verbatim>\<open>hasOwnProperty\<close>.
\<close>

fun plain_mapping :: "jsval \<Rightarrow> bool"
and plain_entries :: "(string \<times> jsval) list \<Rightarrow> bool"
where
  "plain_mapping (JObj kvs) = (\<not> shadows_hasOwnProperty kvs \<and> plain_entries kvs)"
| "plain_mapping JUndefined = False"
| "plain_mapping JNull = False"
| "plain_mapping (JBool b) = False"
| "plain_mapping (JNum n) = False"
| "plain_mapping (JStr s) = False"
| "plain_mapping (JArr vs) = False"
| "plain_entries [] = True"
| "plain_entries ((k, v) # rest) =
     ((case v of JObj kvs \<Rightarrow> plain_mapping v | JStr s \<Rightarrow> True | JNum n \<Rightarrow> True
              | JBool b \<Rightarrow> True | _ \<Rightarrow> False) \<and> plain_entries rest)"

text \<open>
  The same document with its keys in another order, at any depth: the entries of an
  object, each reordered inside, then permuted.
\<close>

inductive reordered :: "jsval \<Rightarrow> jsval \<Rightarrow> bool" where
  same: "reordered v v"
| object: "list_all2 (\<lambda>p q. fst p = fst q \<and> reordered (snd p) (snd q)) kvs kvs' \<Longrightarrow>
     mset kvs' = mset kvs'' \<Longrightarrow> reordered (JObj kvs) (JObj kvs'')"
| array: "list_all2 reordered vs vs' \<Longrightarrow> reordered (JArr vs) (JArr vs')"

subsection \<open>What the cleaning leaves\<close>

text \<open>The file system after \<^verbatim>\<open>_clean(['config', 'log'])\<close>, see \<open>clean_config_log\<close>.\<close>

definition cleaned :: "filesys \<Rightarrow> filesys" where
  "cleaned fs0 =
     (let fs1 = (if isDir fs0 ''config'' then remove_tree [''config''] fs0 else fs0)
      in if isDir fs1 ''log'' then remove_tree [''log''] fs1 else fs1)"

subsection \<open>File names\<close>


section \<open>JSON texts\<close>
















section \<open>A sample project\<close>

text \<open>
  An environment for concrete runs: the three commands answer for the project key
  \<^verbatim>\<open>MYKEY\<close> and one locale, the parsers know the two files that the pull writes. The
  project directory holds a database configuration under \<^verbatim>\<open>config\<close> and a destination
  directory \<^verbatim>\<open>out\<close>.
\<close>

definition sample_yaml :: string where
  "sample_yaml = ''en-US: {hello: Hi}''"

definition sample_log :: string where
  "sample_log = ''{polled_at: 1404200000, updated_at: 1404100000}''"

definition sample_shell :: "string \<Rightarrow> filesys \<Rightarrow> string \<times> filesys" where
  "sample_shell cmd t =
     (if cmd = ''localeapp -v'' then (''localeapp version 0.8.0'' @ newline, t)
      else if cmd = ''localeapp install MYKEY'' then (''Checking API key... Success!'', put [''config''] Dir t)
      else if cmd = ''localeapp pull''
      then (''Fetching translations: Success!'',
            put [''config'', ''locales'', ''en-US.yml''] (File sample_yaml)
              (put [''log'', ''localeapp.yml''] (File sample_log) t))
      else ([], t))"

definition sample_parse :: "string \<Rightarrow> js_error + jsval" where
  "sample_parse text =
     (if text = sample_yaml then Inr (JObj [(''en-US'', JObj [(''hello'', JStr ''Hi'')])])
      else if text = sample_log
      then Inr (JObj [(''polled_at'', JNum 1404200000), (''updated_at'', JNum 1404100000)])
      else Inl (ParseError ''unexpected input''))"

definition sample_date :: "jsval \<Rightarrow> string" where
  "sample_date v =
     (if v = JNum 1404200000 then ''Tue Jul 01 2014 07:33:20 GMT+0000 (UTC)''
      else if v = JNum 1404100000 then ''Mon Jun 30 2014 03:46:40 GMT+0000 (UTC)''
      else ''Invalid Date'')"

definition sample_env :: env where
  "sample_env = \<lparr>shell = sample_shell, yamljs = sample_parse, js_yaml = sample_parse,
                  date_toString = sample_date\<rparr>"

definition sample_world :: world where
  "sample_world =
     \<lparr>fs = [([''config''], Dir), ([''config'', ''database.yml''], File ''adapter: sqlite3''),
            ([''out''], Dir), ([''out'', ''README''], File ''translations'')],
      version = None, trace = []\<rparr>"

text \<open>The sample project after the fetch, and what the fetch returned.\<close>

definition sample_batch :: batch where
  "sample_batch = \<lparr>polledAt = JNum 1404200000, updatedAt = JNum 1404100000, files = [''en-US.yml'']\<rparr>"

definition sample_fetched :: world where
  "sample_fetched =
     \<lparr>fs = [([''config''], Dir), ([''config'', ''locales''], Dir),
            ([''config'', ''locales'', ''en-US.yml''], File sample_yaml),
            ([''log''], Dir), ([''log'', ''localeapp.yml''], File sample_log)],
      version = Some ''localeapp version 0.8.0'', trace = []\<rparr>"


section \<open>The entry counter counts the values that are not objects\<close>

lemma throws_not_object: "typeof v \<noteq> ''object'' \<Longrightarrow> \<not> throws v"
  by (cases v) auto

lemma iterate_spec:
  "if throws v then iterate v stack ps = Inl not_a_function
   else (\<exists>qs. iterate v stack ps = Inr (ps @ qs) \<and> length qs = leaves v)"
  "if (sh \<and> kvs \<noteq> []) \<or> throws_keys kvs then iterate_keys sh kvs stack ps = Inl not_a_function
   else (\<exists>qs. iterate_keys sh kvs stack ps = Inr (ps @ qs) \<and> length qs = leaves_keys kvs)"
  "if throws_elems vs then iterate_elems i vs stack ps = Inl not_a_function
   else (\<exists>qs. iterate_elems i vs stack ps = Inr (ps @ qs) \<and> length qs = leaves_elems vs)"
proof (induction v stack ps and sh kvs stack ps and i vs stack ps rule: iterate_iterate_keys_iterate_elems.induct)
  case (1 kvs stack properties)
  then show ?case by (cases kvs) (auto simp: shadows_hasOwnProperty_def)
next
  case (9 shadowed property v rest stack properties)
  then show ?case
    by (auto simp: throws_not_object split: sum.splits if_splits)
next
  case (11 i v rest stack properties)
  then show ?case
    by (auto simp: throws_not_object split: sum.splits if_splits)
qed (auto)


lemma countEntries_eq:
  "countEntries doc = (if throws doc then Inl not_a_function else Inr (leaves doc))"
  using iterate_spec(1) [of doc "[]" "[]"]
  by (auto simp: countEntries_def split: if_splits)

lemma leaves_keys_sum: "leaves_keys kvs = sum_list (map (\<lambda>p. entry_weight (snd p)) kvs)"
  by (induction kvs) (auto simp: entry_weight_def)

lemma leaves_elems_sum: "leaves_elems vs = sum_list (map entry_weight vs)"
  by (induction vs) (auto simp: entry_weight_def)

lemma throws_keys_ex: "throws_keys kvs = (\<exists>p \<in> set kvs. throws (snd p))"
  by (induction kvs) auto

lemma throws_elems_ex: "throws_elems vs = (\<exists>v \<in> set vs. throws v)"
  by (induction vs) auto

lemma reordered_typeof: "reordered v w \<Longrightarrow> typeof v = typeof w"
  by (induction rule: reordered.induct) auto

lemma reordered_invariants:
  "reordered v w \<Longrightarrow> leaves v = leaves w \<and> throws v = throws w"
proof (induction rule: reordered.induct)
  case (same v)
  show ?case by simp
next
  case (object kvs kvs' kvs'')
  have m: "mset kvs' = mset kvs''" using object.hyps by simp
  have w: "map (\<lambda>p. entry_weight (snd p)) kvs = map (\<lambda>p. entry_weight (snd p)) kvs'"
    using object.IH
    by (induction rule: list_all2_induct) (auto simp: entry_weight_def dest: reordered_typeof)
  have k: "map fst kvs = map fst kvs'"
    using object.IH by (induction rule: list_all2_induct) auto
  have t: "map (\<lambda>p. throws (snd p)) kvs = map (\<lambda>p. throws (snd p)) kvs'"
    using object.IH by (induction rule: list_all2_induct) auto
  have "sum_list (map (\<lambda>p. entry_weight (snd p)) kvs') = sum_list (map (\<lambda>p. entry_weight (snd p)) kvs'')"
  proof -
    have "mset (map (\<lambda>p. entry_weight (snd p)) kvs') = mset (map (\<lambda>p. entry_weight (snd p)) kvs'')"
      using m by simp
    then have "sum_mset (mset (map (\<lambda>p. entry_weight (snd p)) kvs')) =
               sum_mset (mset (map (\<lambda>p. entry_weight (snd p)) kvs''))"
      by (simp only:)
    then show ?thesis by (simp only: sum_mset_sum_list)
  qed
  with w have l: "leaves_keys kvs = leaves_keys kvs''"
    by (simp add: leaves_keys_sum)
  have s: "set kvs' = set kvs''"
    using m by (rule mset_eq_setD)
  have "shadows_hasOwnProperty kvs = shadows_hasOwnProperty kvs''"
  proof -
    have "set (map fst kvs) = set (map fst kvs')" by (simp only: k)
    also have "\<dots> = set (map fst kvs'')" using s by simp
    finally show ?thesis by (simp only: shadows_hasOwnProperty_def)
  qed
  moreover have "throws_keys kvs = throws_keys kvs''"
  proof -
    have "throws_keys kvs = (True \<in> set (map (\<lambda>p. throws (snd p)) kvs))"
      by (auto simp: throws_keys_ex)
    also have "\<dots> = (True \<in> set (map (\<lambda>p. throws (snd p)) kvs'))"
      by (simp only: t)
    also have "\<dots> = throws_keys kvs''"
      using s by (auto simp: throws_keys_ex)
    finally show ?thesis .
  qed
  ultimately show ?case using l by simp
next
  case (array vs vs')
  have "map entry_weight vs = map entry_weight vs'"
    using array.IH
    by (induction rule: list_all2_induct) (auto simp: entry_weight_def dest: reordered_typeof)
  then have l: "leaves_elems vs = leaves_elems vs'"
    by (simp add: leaves_elems_sum)
  have t: "map throws vs = map throws vs'"
    using array.IH by (induction rule: list_all2_induct) auto
  have "throws_elems vs = (True \<in> set (map throws vs))"
    by (auto simp: throws_elems_ex)
  also have "\<dots> = (True \<in> set (map throws vs'))"
    by (simp only: t)
  also have "\<dots> = throws_elems vs'"
    by (auto simp: throws_elems_ex)
  finally show ?case using l by simp
qed

lemma plain_mapping_leaves:
  "plain_mapping v \<Longrightarrow> \<not> throws v \<and> leaves v = spec_leaf_count v"
  "plain_entries kvs \<Longrightarrow> \<not> throws_keys kvs \<and> leaves_keys kvs = spec_leaf_count_keys kvs"
proof (induction v and kvs rule: plain_mapping_plain_entries.induct)
  case (9 k v rest)
  then show ?case by (cases v) auto
qed auto

text \<open>
  Claim C5, as amended. The entry counter is a function of the loaded document alone.
  It returns the number of values whose type is not \<^verbatim>\<open>"object"\<close> (strings, numbers,
  booleans), reached through nested mappings and through arrays: an array is walked
  like a mapping, one entry per element, and \<^verbatim>\<open>null\<close> counts nothing; it throws when
  a mapping on the way has an own key \<^verbatim>\<open>hasOwnProperty\<close>. The result does not change
  when keys are reordered at any depth. On a nested mapping whose leaves are strings,
  numbers and booleans it is the number of leaves, and \<^verbatim>\<open>{a: {b: 1, c: 2}}\<close> gives 2.
\<close>

theorem countEntries_counts_non_objects:
  "countEntries doc = (if throws doc then Inl not_a_function else Inr (leaves doc)) \<and>
   (reordered doc doc' \<longrightarrow> countEntries doc' = countEntries doc) \<and>
   (plain_mapping doc \<longrightarrow> countEntries doc = Inr (spec_leaf_count doc)) \<and>
   countEntries (JObj [(''a'', JObj [(''b'', JNum 1), (''c'', JNum 2)])]) = Inr 2"
proof -
  have "reordered doc doc' \<longrightarrow> countEntries doc' = countEntries doc"
    using reordered_invariants [of doc doc'] by (simp add: countEntries_eq)
  moreover have "plain_mapping doc \<longrightarrow> countEntries doc = Inr (spec_leaf_count doc)"
    using plain_mapping_leaves(1) [of doc] by (simp add: countEntries_eq)
  moreover have "countEntries (JObj [(''a'', JObj [(''b'', JNum 1), (''c'', JNum 2)])]) = Inr 2"
    by (simp add: countEntries_eq shadows_hasOwnProperty_def)
  ultimately show ?thesis by (simp add: countEntries_eq)
qed

text \<open>
  The theorem at \<^verbatim>\<open>{a: {b: 1, c: 2}}\<close> and the same document with \<^verbatim>\<open>c\<close> before \<^verbatim>\<open>b\<close>.
\<close>

theorem countEntries_counts_non_objects_witness:
  "reordered (JObj [(''a'', JObj [(''b'', JNum 1), (''c'', JNum 2)])])
             (JObj [(''a'', JObj [(''c'', JNum 2), (''b'', JNum 1)])]) \<and>
   plain_mapping (JObj [(''a'', JObj [(''b'', JNum 1), (''c'', JNum 2)])]) \<and>
   countEntries (JObj [(''a'', JObj [(''c'', JNum 2), (''b'', JNum 1)])]) = Inr 2 \<and>
   countEntries (JObj [(''a'', JObj [(''b'', JNum 1), (''c'', JNum 2)])]) = Inr 2 \<and>
   spec_leaf_count (JObj [(''a'', JObj [(''b'', JNum 1), (''c'', JNum 2)])]) = 2"
proof -
  let ?inner = "[(''b'', JNum 1), (''c'', JNum 2)]"
  let ?inner' = "[(''c'', JNum 2), (''b'', JNum 1)]"
  have i: "reordered (JObj ?inner) (JObj ?inner')"
    by (rule reordered.object [where kvs' = ?inner]) (simp_all add: reordered.same)
  have r: "reordered (JObj [(''a'', JObj ?inner)]) (JObj [(''a'', JObj ?inner')])"
    by (rule reordered.object [where kvs' = "[(''a'', JObj ?inner')]"]) (simp_all add: i)
  have p: "plain_mapping (JObj [(''a'', JObj ?inner)])"
    by (simp add: shadows_hasOwnProperty_def)
  show ?thesis
    using countEntries_counts_non_objects
      [of "JObj [(''a'', JObj ?inner)]" "JObj [(''a'', JObj ?inner')]"] r p
    by simp
qed

text \<open>
  Claim C5 as stated fails: a key whose value is \<^verbatim>\<open>null\<close> is a leaf and is not counted,
  and a key whose value is an array of two strings is one leaf and is counted twice.
\<close>

theorem countEntries_null_and_array_counterexample:
  "countEntries (JObj [(''a'', JNull)]) = Inr 0 \<and>
   spec_leaf_count (JObj [(''a'', JNull)]) = 1 \<and>
   countEntries (JObj [(''days'', JArr [JStr ''Mon'', JStr ''Tue''])]) = Inr 2 \<and>
   spec_leaf_count (JObj [(''days'', JArr [JStr ''Mon'', JStr ''Tue''])]) = 1"
  by (simp add: countEntries_def shadows_hasOwnProperty_def)

section \<open>The dependency check never fails\<close>

lemma checkLocaleappGem_always_passes:
  "checkLocaleappGem e w =
     (Inr (), w\<lparr>fs := snd (shell e ''localeapp -v'' (fs w)),
                 trace := trace w @ [Exec ''localeapp -v'',
                   Log (tick @ ''localeapp gem installed (v''
                        @ display (element (split_on CHR '' ''
                            (butlast (fst (shell e ''localeapp -v'' (fs w))))) 2)
                        @ '')'')],
                 version := Some (butlast (fst (shell e ''localeapp -v'' (fs w))))\<rparr>)"
  by (simp add: checkLocaleappGem_def bind_def command_def log_writeln_def split: prod.splits)

text \<open>
  Claim C2 at the failing input. When \<^verbatim>\<open>localeapp -v\<close> prints nothing, the captured
  output is the empty string, \<^verbatim>\<open>slice(0, -1)\<close> of it is the empty string and not
  \<^verbatim>\<open>undefined\<close>: the check passes, the task goes on and the version it reports is the
  text \<^verbatim>\<open>undefined\<close>.
\<close>

theorem checkLocaleappGem_no_output:
  "checkLocaleappGem (e\<lparr>shell := \<lambda>cmd fs. ([], fs)\<rparr>) w =
     (Inr (), w\<lparr>version := Some [],
                 trace := trace w @ [Exec ''localeapp -v'',
                                     Log (tick @ ''localeapp gem installed (vundefined)'')]\<rparr>)"
  by (simp add: checkLocaleappGem_def bind_def command_def log_writeln_def display_def element_def)

section \<open>The key is refused exactly when the output begins with \<open>error\<close>\<close>

lemma begins_with_error: "(take 5 s = ''error'') = (\<exists>rest. s = ''error'' @ rest)"
proof
  assume "take 5 s = ''error''"
  then have "s = ''error'' @ drop 5 s"
    by (metis append_take_drop_id)
  then show "\<exists>rest. s = ''error'' @ rest" ..
next
  assume "\<exists>rest. s = ''error'' @ rest"
  then show "take 5 s = ''error''" by auto
qed

lemma command_then_check:
  "bind (command e cmd) (\<lambda>log. if take 5 log = ''error'' then fail_fatal m else log_writeln l) w =
     (let w' = w\<lparr>fs := snd (shell e cmd (fs w)), trace := trace w @ [Exec cmd]\<rparr>
      in if take 5 (fst (shell e cmd (fs w))) = ''error'' then (Inl (Fatal m), w')
         else (Inr (), w'\<lparr>trace := trace w' @ [Log l]\<rparr>))"
  by (simp add: bind_def command_def fail_fatal_def throw_def log_writeln_def split: prod.splits)

text \<open>
  Claim C4. The authenticator stops the task with the invalid-key error if and only if
  the captured output of \<^verbatim>\<open>localeapp install <key>\<close> begins with the five characters
  \<^verbatim>\<open>error\<close>; on every other output it logs that the key is valid and returns.
\<close>

theorem setupProject_fatal_iff:
  "((fst (setupProject e k w) = Inl (Fatal ''Your API key seems to be invalid''))
     = (\<exists>rest. fst (shell e (''localeapp install '' @ k) (fs w)) = ''error'' @ rest)) \<and>
   setupProject e k w =
     (let cmd = ''localeapp install '' @ k;
          w' = w\<lparr>fs := snd (shell e cmd (fs w)), trace := trace w @ [Exec cmd]\<rparr>
      in if (\<exists>rest. fst (shell e cmd (fs w)) = ''error'' @ rest)
         then (Inl (Fatal ''Your API key seems to be invalid''), w')
         else (Inr (), w'\<lparr>trace := trace w' @ [Log (tick @ ''Key '' @ k @ '' valid'')]\<rparr>))"
  unfolding setupProject_def command_then_check begins_with_error [symmetric]
  by (simp add: Let_def)

section \<open>Cleaning\<close>

lemma parse_config: "parse_path ''config'' = [''config'']"
  by (simp add: parse_path_def)

lemma parse_log: "parse_path ''log'' = [''log'']"
  by (simp add: parse_path_def)

lemma parse_config_locales: "parse_path ''config/locales'' = [''config'', ''locales'']"
  by (simp add: parse_path_def)

lemma clean_config_log:
  "clean [''config'', ''log''] w = (Inr (), w\<lparr>fs := cleaned (fs w)\<rparr>)"
  by (simp add: bind_def return_def fs_try_def file_delete_def parse_config parse_log cleaned_def Let_def)

lemma map_of_remove_tree:
  "map_of (remove_tree p fsys) q = (if under p q then None else map_of fsys q)"
  by (induction fsys) (auto simp: remove_tree_def)

lemma isDir_config: "isDir fsys ''config'' = (map_of fsys [''config''] = Some Dir)"
  by (simp add: isDir_def lookup_def stat_def parse_config)

lemma isDir_log: "isDir fsys ''log'' = (map_of fsys [''log''] = Some Dir)"
  by (simp add: isDir_def lookup_def stat_def parse_log)

lemma cleaned_config: "map_of (cleaned fs0) [''config''] \<noteq> Some Dir"
  by (simp add: cleaned_def Let_def isDir_config isDir_log map_of_remove_tree under_def)

lemma cleaned_log: "map_of (cleaned fs0) [''log''] \<noteq> Some Dir"
  by (simp add: cleaned_def Let_def isDir_config isDir_log map_of_remove_tree under_def)

lemma stat_below:
  "length p > 1 \<Longrightarrow> map_of fsys [hd p] \<noteq> Some Dir \<Longrightarrow> stat fsys p = None"
proof -
  assume l: "length p > 1" and n: "map_of fsys [hd p] \<noteq> Some Dir"
  have "take 1 p = [hd p]" using l by (cases p) auto
  moreover have "1 \<in> set [1..<length p]" using l by simp
  ultimately have "\<not> list_all (\<lambda>n. map_of fsys (take n p) = Some Dir) [1..<length p]"
    using n unfolding list_all_iff by metis
  then show ?thesis using l by (auto simp: stat_def)
qed


lemma cleaned_idem: "cleaned (cleaned fs0) = cleaned fs0"
proof -
  have "\<not> isDir (cleaned fs0) ''config''" by (simp add: isDir_config cleaned_config)
  moreover have "\<not> isDir (cleaned fs0) ''log''" by (simp add: isDir_log cleaned_log)
  ultimately show ?thesis by (simp add: cleaned_def [of "cleaned fs0"])
qed

lemma cleaned_gone:
  "lookup (cleaned fs0) ''config/locales'' = None"
  by (simp add: lookup_def parse_config_locales stat_below cleaned_config)

lemma cleaned_whole_config:
  "isDir fs0 ''config'' \<Longrightarrow> under [''config''] p \<Longrightarrow> map_of (cleaned fs0) p = None"
  by (simp add: cleaned_def Let_def map_of_remove_tree)

section \<open>The task as a whole\<close>

lemma bind_Inr:
  "(bind m f w = (Inr x, w')) = (\<exists>y w''. m w = (Inr y, w'') \<and> f y w'' = (Inr x, w'))"
  by (auto simp: bind_def split: prod.splits sum.splits)

declare clean.simps [simp del]

lemma bind_clean:
  "bind (clean [''config'', ''log'']) f w = f () (w\<lparr>fs := cleaned (fs w)\<rparr>)"
  by (simp add: bind_def clean_config_log)

lemma cleaned_no_locales: "\<not> isDir (cleaned t) ''config/locales''"
  by (simp add: isDir_def cleaned_gone)

lemma cleaned_no_log: "\<not> isDir (cleaned t) ''log''"
  by (simp add: isDir_log cleaned_log)

lemma localeapp_unsupported:
  "format d \<notin> set availableFormats \<Longrightarrow>
   localeapp e d w = (Inl (Fatal (unsupported (format d))), w\<lparr>fs := cleaned (fs w)\<rparr>)"
  unfolding localeapp_def bind_clean
  by (simp add: bind_def fail_fatal_def throw_def)

lemma localeapp_Inr_cleaned:
  "localeapp e d w = (Inr (), w') \<Longrightarrow> \<exists>t. fs w' = cleaned t"
  by (auto simp: localeapp_def bind_Inr clean_config_log)

lemma localeapp_success_cleaned:
  "fst (localeapp e d w) = Inr () \<Longrightarrow> \<exists>t. fs (snd (localeapp e d w)) = cleaned t"
  by (rule localeapp_Inr_cleaned [of e d w]) (metis prod.collapse)

lemma localeapp_preclean:
  "localeapp e d (w\<lparr>fs := cleaned (fs w)\<rparr>) = localeapp e d w"
  unfolding localeapp_def bind_clean by (simp add: cleaned_idem)



text \<open>
  Claim C8. After a run that succeeds, whatever the format, \<^verbatim>\<open>config/locales\<close> does
  not exist and \<^verbatim>\<open>log\<close> is not a directory. The same cleaning is what every run
  starts with; it never fails, whether the directories are there or not, and cleaning
  twice is cleaning once.
\<close>

theorem working_directories_gone_after_success:
  "(fst (localeapp e d w) = Inr () \<longrightarrow>
      lookup (fs (snd (localeapp e d w))) ''config/locales'' = None \<and>
      \<not> isDir (fs (snd (localeapp e d w))) ''config/locales'' \<and>
      \<not> isDir (fs (snd (localeapp e d w))) ''log'') \<and>
   localeapp e d w = bind (clean [''config'', ''log'']) (\<lambda>_. localeapp e d) w \<and>
   fst (clean [''config'', ''log''] w) = Inr () \<and>
   snd (clean [''config'', ''log''] (snd (clean [''config'', ''log''] w))) = snd (clean [''config'', ''log''] w)"
proof -
  have "fst (localeapp e d w) = Inr () \<longrightarrow>
      lookup (fs (snd (localeapp e d w))) ''config/locales'' = None \<and>
      \<not> isDir (fs (snd (localeapp e d w))) ''config/locales'' \<and>
      \<not> isDir (fs (snd (localeapp e d w))) ''log''"
  proof
    assume "fst (localeapp e d w) = Inr ()"
    then obtain t where "fs (snd (localeapp e d w)) = cleaned t"
      using localeapp_success_cleaned by blast
    then show "lookup (fs (snd (localeapp e d w))) ''config/locales'' = None \<and>
      \<not> isDir (fs (snd (localeapp e d w))) ''config/locales'' \<and>
      \<not> isDir (fs (snd (localeapp e d w))) ''log''"
      by (simp add: cleaned_gone cleaned_no_log cleaned_no_locales)
  qed
  moreover have "localeapp e d w = bind (clean [''config'', ''log'']) (\<lambda>_. localeapp e d) w"
    unfolding bind_clean by (simp add: localeapp_preclean)
  moreover have "snd (clean [''config'', ''log''] (snd (clean [''config'', ''log''] w))) = snd (clean [''config'', ''log''] w)"
    by (simp add: clean_config_log cleaned_idem)
  moreover have "fst (clean [''config'', ''log''] w) = Inr ()"
    by (simp add: clean_config_log)
  ultimately show ?thesis by blast
qed

text \<open>The theorem at two runs that succeed, one to JSON and one to YAML.\<close>

theorem working_directories_gone_after_success_witness:
  "fst (localeapp sample_env \<lparr>key = ''MYKEY'', format = ''json'', dest = ''out/''\<rparr> sample_world) = Inr () \<and>
   lookup (fs (snd (localeapp sample_env \<lparr>key = ''MYKEY'', format = ''json'', dest = ''out/''\<rparr> sample_world)))
     ''config/locales'' = None \<and>
   \<not> isDir (fs (snd (localeapp sample_env \<lparr>key = ''MYKEY'', format = ''json'', dest = ''out/''\<rparr> sample_world)))
     ''log'' \<and>
   fst (localeapp sample_env \<lparr>key = ''MYKEY'', format = ''yml'', dest = ''out/''\<rparr> sample_world) = Inr () \<and>
   lookup (fs (snd (localeapp sample_env \<lparr>key = ''MYKEY'', format = ''yml'', dest = ''out/''\<rparr> sample_world)))
     ''config/locales'' = None \<and>
   \<not> isDir (fs (snd (localeapp sample_env \<lparr>key = ''MYKEY'', format = ''yml'', dest = ''out/''\<rparr> sample_world)))
     ''log''"
proof -
  have j: "fst (localeapp sample_env \<lparr>key = ''MYKEY'', format = ''json'', dest = ''out/''\<rparr> sample_world) = Inr ()"
    by code_simp
  have y: "fst (localeapp sample_env \<lparr>key = ''MYKEY'', format = ''yml'', dest = ''out/''\<rparr> sample_world) = Inr ()"
    by code_simp
  show ?thesis
    using j y
      working_directories_gone_after_success
        [of sample_env "\<lparr>key = ''MYKEY'', format = ''json'', dest = ''out/''\<rparr>" sample_world]
      working_directories_gone_after_success
        [of sample_env "\<lparr>key = ''MYKEY'', format = ''yml'', dest = ''out/''\<rparr>" sample_world]
    by blast
qed

lemma fs_read_Inr: "(fs_read f w = (Inr x, w')) = (f (fs w) = Inr x \<and> w' = w)"
  by (auto simp: fs_read_def split: sum.splits)

lemma fs_try_Inr: "(fs_try f w = (Inr x, w')) = (\<exists>t. f (fs w) = Inr t \<and> w' = w\<lparr>fs := t\<rparr>)"
  by (auto simp: fs_try_def split: sum.splits)

lemma log_writeln_Inr:
  "(log_writeln m w = (Inr x, w')) = (w' = w\<lparr>trace := trace w @ [Log m]\<rparr>)"
  by (auto simp: log_writeln_def)

lemma map_of_put: "map_of (put p n t) q = (if q = p then Some n else map_of t q)"
  by (induction t) auto

lemma mkdir_p_keeps_dirs: "map_of t q = Some Dir \<Longrightarrow> map_of (mkdir_p t ds) q = Some Dir"
  by (induction ds arbitrary: t) (auto simp: map_of_put)

lemma file_write_keeps_dirs:
  "file_write t s c = Inr t' \<Longrightarrow> map_of t q = Some Dir \<Longrightarrow> map_of t' q = Some Dir"
  by (auto simp: file_write_def Let_def map_of_put mkdir_p_keeps_dirs split: if_splits)

lemma file_copy_keeps_dirs:
  "file_copy t src dst = Inr t' \<Longrightarrow> map_of t q = Some Dir \<Longrightarrow> map_of t' q = Some Dir"
  by (auto simp: file_copy_def split: sum.splits dest: file_write_keeps_dirs)

lemma copy_loop_keeps_dirs:
  "copy_loop d names w = (Inr (), w') \<Longrightarrow> map_of (fs w) q = Some Dir \<Longrightarrow>
   map_of (fs w') q = Some Dir"
proof (induction names arbitrary: w)
  case Nil
  then show ?case by (simp add: return_def)
next
  case (Cons name rest)
  from Cons.prems(1) obtain w1 where
    s: "fs_try (\<lambda>t. file_copy t (''config/locales/'' @ name) (d @ name)) w = (Inr (), w1)"
    and r: "copy_loop d rest w1 = (Inr (), w')"
    by (auto simp: bind_Inr)
  from s obtain t' where "file_copy (fs w) (''config/locales/'' @ name) (d @ name) = Inr t'"
    and "fs w1 = t'"
    by (auto simp: fs_try_Inr)
  with Cons.prems(2) have "map_of (fs w1) q = Some Dir"
    using file_copy_keeps_dirs by blast
  with r show ?case by (rule Cons.IH)
qed

lemma listed_locales_config:
  "readdirSync t ''config/locales'' = Inr names \<Longrightarrow> map_of t [''config''] = Some Dir"
  by (auto simp: readdirSync_def lookup_def parse_config_locales stat_def split: if_splits)

lemma publish_keeps_config:
  "publish d w = (Inr (), w') \<Longrightarrow> isDir (fs w') ''config''"
proof -
  assume "publish d w = (Inr (), w')"
  then obtain names w1 where
    l: "readdirSync (fs w) ''config/locales'' = Inr names"
    and c: "copy_loop d names w = (Inr (), w1)"
    and f: "fs w' = fs w1"
    by (auto simp: publish_def bind_Inr fs_read_Inr log_writeln_Inr)
  from l have "map_of (fs w) [''config''] = Some Dir" by (rule listed_locales_config)
  with c have "map_of (fs w1) [''config''] = Some Dir" by (rule copy_loop_keeps_dirs)
  with f show ?thesis by (simp add: isDir_config)
qed

lemma localeapp_Inr_config_removed:
  "localeapp e d w = (Inr (), w') \<Longrightarrow> \<exists>t. fs w' = cleaned t \<and> isDir t ''config''"
  by (auto simp: localeapp_def bind_Inr clean_config_log dest: publish_keeps_config)

text \<open>
  Claim C9. The cleaning removes the whole directory \<^verbatim>\<open>config\<close>, not only
  \<^verbatim>\<open>config/locales\<close>: when \<^verbatim>\<open>config\<close> is a directory, no entry at or under it is left.
  This is the state a run starts from, it is the state a run that fails the format
  check ends in, and after a run that succeeds no entry at or under \<^verbatim>\<open>config\<close> is
  left either.
\<close>

theorem clean_removes_whole_config:
  "(isDir t ''config'' \<longrightarrow> (\<forall>p. under [''config''] p \<longrightarrow> map_of (cleaned t) p = None)) \<and>
   snd (clean [''config'', ''log''] w) = w\<lparr>fs := cleaned (fs w)\<rparr> \<and>
   (format d \<notin> set availableFormats \<longrightarrow> fs (snd (localeapp e d w)) = cleaned (fs w)) \<and>
   (fst (localeapp e d w) = Inr () \<longrightarrow>
      (\<forall>p. under [''config''] p \<longrightarrow> map_of (fs (snd (localeapp e d w))) p = None))"
proof -
  have "fst (localeapp e d w) = Inr () \<longrightarrow>
      (\<forall>p. under [''config''] p \<longrightarrow> map_of (fs (snd (localeapp e d w))) p = None)"
  proof
    assume "fst (localeapp e d w) = Inr ()"
    then have "localeapp e d w = (Inr (), snd (localeapp e d w))"
      by (metis prod.collapse)
    then obtain t where "fs (snd (localeapp e d w)) = cleaned t" and "isDir t ''config''"
      using localeapp_Inr_config_removed by blast
    then show "\<forall>p. under [''config''] p \<longrightarrow> map_of (fs (snd (localeapp e d w))) p = None"
      by (simp add: cleaned_whole_config)
  qed
  then show ?thesis
    by (simp add: cleaned_whole_config clean_config_log localeapp_unsupported)
qed

text \<open>
  The theorem at the sample project, whose \<^verbatim>\<open>config/database.yml\<close> is lost by a run
  with the format \<^verbatim>\<open>xml\<close> and by a run that succeeds.
\<close>

theorem clean_removes_whole_config_witness:
  "isDir (fs sample_world) ''config'' \<and>
   under [''config''] [''config'', ''database.yml''] \<and>
   map_of (fs sample_world) [''config'', ''database.yml''] = Some (File ''adapter: sqlite3'') \<and>
   map_of (cleaned (fs sample_world)) [''config'', ''database.yml''] = None \<and>
   format \<lparr>key = ''MYKEY'', format = ''xml'', dest = ''out/''\<rparr> \<notin> set availableFormats \<and>
   map_of (fs (snd (localeapp sample_env \<lparr>key = ''MYKEY'', format = ''xml'', dest = ''out/''\<rparr> sample_world)))
     [''config'', ''database.yml''] = None \<and>
   fst (localeapp sample_env \<lparr>key = ''MYKEY'', format = ''js'', dest = ''out/''\<rparr> sample_world) = Inr () \<and>
   map_of (fs (snd (localeapp sample_env \<lparr>key = ''MYKEY'', format = ''js'', dest = ''out/''\<rparr> sample_world)))
     [''config'', ''database.yml''] = None"
proof -
  have a: "isDir (fs sample_world) ''config''"
    by (simp add: isDir_config sample_world_def)
  have b: "under [''config''] [''config'', ''database.yml'']"
    by (simp add: under_def)
  have c: "map_of (fs sample_world) [''config'', ''database.yml''] = Some (File ''adapter: sqlite3'')"
    by (simp add: sample_world_def)
  have f: "format \<lparr>key = ''MYKEY'', format = ''xml'', dest = ''out/''\<rparr> \<notin> set availableFormats"
    by (simp add: availableFormats_def)
  have j: "fst (localeapp sample_env \<lparr>key = ''MYKEY'', format = ''js'', dest = ''out/''\<rparr> sample_world) = Inr ()"
    by code_simp
  show ?thesis
    using a b c f j
      clean_removes_whole_config
        [of "fs sample_world" sample_world "\<lparr>key = ''MYKEY'', format = ''xml'', dest = ''out/''\<rparr>" sample_env]
      clean_removes_whole_config
        [of "fs sample_world" sample_world "\<lparr>key = ''MYKEY'', format = ''js'', dest = ''out/''\<rparr>" sample_env]
    by metis
qed

section \<open>Output names and the formatters\<close>


























section \<open>What JSON.stringify returns is JSON\<close>
























section \<open>The script variant and the metadata\<close>




text \<open>
  Claim C1 at the failing input: the fetched file \<^verbatim>\<open>en-US.yml\<close> of the sample project,
  format \<^verbatim>\<open>json\<close>. The file \<^verbatim>\<open>en_US.json\<close> is written with the sub-document alone.
  The content is serialised (line 168) before \<^verbatim>\<open>_meta\<close> is put into the object
  (lines 178-181), so the object that holds \<^verbatim>\<open>polledAt\<close>, \<^verbatim>\<open>updatedAt\<close> and
  \<^verbatim>\<open>gem\<close> is never written.
\<close>

theorem formatJSON_writes_before_meta:
  \<open>formatJSON sample_env sample_batch False sample_fetched =
     (Inr (),
      sample_fetched\<lparr>fs :=
        [([''config''], Dir), ([''config'', ''locales''], Dir), ([''log''], Dir),
         ([''log'', ''localeapp.yml''], File sample_log),
         ([''config'', ''locales'', ''en_US.json''],
          File (''{'' @ newline @ ''  "hello": "Hi"'' @ newline @ ''}''))]\<rparr>) \<and>
   set_prop (JObj [(''hello'', JStr ''Hi'')]) ''_meta''
       (meta sample_env sample_batch (version sample_fetched)) =
     Inr (JObj [(''hello'', JStr ''Hi''),
                (''_meta'', JObj [(''polledAt'', JStr ''Tue Jul 01 2014 07:33:20 GMT+0000 (UTC)''),
                                  (''updatedAt'', JStr ''Mon Jun 30 2014 03:46:40 GMT+0000 (UTC)''),
                                  (''gem'', JStr ''localeapp version 0.8.0'')])])\<close>
  by code_simp

section \<open>Publishing\<close>





















end
